theory Spec2Isabelle
  imports Main "HOL-Library.Word" "HOL-Library.Sublist"
begin

section \<open>The postgres binding of nuclei (v2/pkg/js/libs/postgres/postgres.go)\<close>

text \<open>
  The package is a facade over three libraries: a fingerprinting plugin, the go-pg
  client and database/sql with the lib/pq driver.  The functions of the package are
  embedded as HOL functions; what the libraries answer is a parameter (the record
  \<open>env\<close> below), and every call on a library that acquires, uses or releases a
  handle is written to a trace that the function returns beside its Go result.
\<close>

subsection \<open>Go values\<close>

text \<open>A Go \<open>error\<close> value; \<open>message\<close> is what \<open>err.Error()\<close> returns.\<close>

datatype error = Error (message: string)

text \<open>The service descriptor returned by the fingerprinting plugin (opaque here).\<close>

datatype service = Service string

text \<open>\<open>pg.Options\<close>, with the four fields the package sets.\<close>

record pg_options =
  Addr :: string
  User :: string
  Password :: string
  Database :: string

text \<open>The handles the package obtains from the libraries.\<close>

datatype resource = RawConn | PgDB | SqlDB | SqlRows

text \<open>
  The trace: \<open>Dial\<close> is \<open>net.DialTimeout\<close>, \<open>Acquire\<close> a handle coming into the
  function's hands (a dialled connection, the result of \<open>pg.Connect\<close>, of
  \<open>sql.Open\<close>, of \<open>db.Query\<close>), \<open>Release\<close> its \<open>Close\<close>, \<open>SetDeadline\<close>,
  \<open>Detect\<close> the plugin's \<open>Run\<close>, \<open>Exec\<close> the go-pg \<open>db.Exec\<close> and \<open>Query\<close>
  the database/sql \<open>db.Query\<close>.
\<close>

datatype event =
    Dial string
  | Acquire resource
  | Release resource
  | SetDeadline
  | Detect string
  | Exec pg_options string
  | Query string string

text \<open>The handles still open at the end of a trace.\<close>

fun track :: "resource list \<Rightarrow> event \<Rightarrow> resource list" where
  "track hs (Acquire r) = r # hs"
| "track hs (Release r) = remove1 r hs"
| "track hs _ = hs"

definition held :: "event list \<Rightarrow> resource list" where
  "held tr = foldl track [] tr"

subsection \<open>Values of a result set\<close>

text \<open>
  A 64-bit float is carried as its bit pattern; the package performs no arithmetic on
  it.
\<close>

type_synonym int64 = "64 word"
type_synonym int32 = "32 word"
type_synonym float64 = "64 word"

text \<open>
  A \<open>driver.Value\<close>: what the driver hands to \<open>rows.Scan\<close> for one cell; \<open>DNil\<close> is
  SQL NULL.  A \<open>time.Time\<close> is carried as nanoseconds since the epoch.
\<close>

datatype driver_value =
    DNil
  | DInt64 int64
  | DFloat64 float64
  | DBool bool
  | DBytes string
  | DString string
  | DTime int

text \<open>\<open>sql.ColumnType\<close>, with the two accessors the package calls.\<close>

record column_type =
  Name :: string
  DatabaseTypeName :: string

text \<open>
  The scan destinations: a pointer to one of the nullable structs of database/sql,
  each a value and its \<open>Valid\<close> flag.
\<close>

datatype holder =
    NullString string bool
  | NullBool bool bool
  | NullInt64 int64 bool
  | NullFloat64 float64 bool
  | NullInt32 int32 bool

text \<open>
  What \<open>masterData\<close> stores under a column name, one constructor for each branch of
  the unwrap chain: the \<open>Bool\<close>, \<open>String\<close>, \<open>Int64\<close>, \<open>Float64\<close>, \<open>Int32\<close>
  field of the holder, or (last branch) the element of \<open>scanArgs\<close> itself.
\<close>

datatype colvalue =
    VBool bool
  | VString string
  | VInt64 int64
  | VFloat64 float64
  | VInt32 int32
  | VRaw "holder option"

type_synonym masterData = "string \<rightharpoonup> colvalue"

text \<open>
  \<open>sql.Rows\<close> as the package sees it: the answer of \<open>ColumnTypes\<close>, the rows for
  which \<open>Next\<close> returns true, in order, and the reason why \<open>Next\<close> finally
  returns false (\<open>None\<close>: the result set is exhausted; \<open>Some e\<close>: the driver failed,
  which \<open>rows.Err()\<close> would report).
\<close>

record sql_rows =
  ColumnTypes :: "error + column_type list"
  pending :: "driver_value list list"
  lasterr :: "error option"

subsection \<open>The libraries\<close>

text \<open>
  \<^item> \<open>DialTimeout addr\<close>: \<open>net.DialTimeout("tcp", addr, 10s)\<close>, \<open>None\<close> when the
    connection is established;
  \<^item> \<open>plugin_Run addr host\<close>: the plugin's \<open>Run\<close> on the connection dialled to
    \<open>addr\<close>, with target host \<open>host\<close>;
  \<^item> \<open>pg_Exec opts q\<close>: \<open>db.Exec(q)\<close> on the go-pg handle made from \<open>opts\<close>;
  \<^item> \<open>sql_Open s\<close>: \<open>sql.Open("postgres", s)\<close>; \<open>db_Query s q\<close>: \<open>db.Query(q)\<close>
    on that handle;
  \<^item> \<open>convert_string\<close> and its siblings: database/sql's \<open>convertAssign\<close> for a
    source value whose type differs from the destination's;
  \<open>scan_error i e\<close>: the error \<open>rows.Scan\<close> returns when column \<open>i\<close> fails with \<open>e\<close>;
  \<^item> \<open>Marshal\<close>: \<open>jsoniter.Marshal\<close> of the slice of row maps.
\<close>

record env =
  DialTimeout :: "string \<Rightarrow> error option"
  plugin_Run :: "string \<Rightarrow> string \<Rightarrow> error + service option"
  pg_Exec :: "pg_options \<Rightarrow> string \<Rightarrow> error option"
  sql_Open :: "string \<Rightarrow> error option"
  db_Query :: "string \<Rightarrow> string \<Rightarrow> error + sql_rows"
  convert_string :: "driver_value \<Rightarrow> error + string"
  convert_bool :: "driver_value \<Rightarrow> error + bool"
  convert_int64 :: "driver_value \<Rightarrow> error + int64"
  convert_float64 :: "driver_value \<Rightarrow> error + float64"
  convert_int32 :: "driver_value \<Rightarrow> error + int32"
  scan_error :: "nat \<Rightarrow> error \<Rightarrow> error"
  Marshal :: "masterData list \<Rightarrow> error + string"

subsection \<open>Strings\<close>

text \<open>\<open>fmt.Sprintf("%d", n)\<close>: the decimal digits, with a sign for a negative number.\<close>

function utoa :: "nat \<Rightarrow> string" where
  "utoa n = (if n < 10 then [''0123456789'' ! n]
             else utoa (n div 10) @ [''0123456789'' ! (n mod 10)])"
  by pat_completeness auto
termination
  by (relation "measure id") auto

declare utoa.simps [simp del]

definition itoa :: "int \<Rightarrow> string" where
  "itoa i = (if i < 0 then ''-'' @ utoa (nat (- i)) else utoa (nat i))"

text \<open>\<open>net.JoinHostPort\<close>: a host with a colon is put in brackets.\<close>

definition JoinHostPort :: "string \<Rightarrow> string \<Rightarrow> string" where
  "JoinHostPort host port =
     (if CHR '':'' \<in> set host then ''['' @ host @ '']:'' @ port
      else host @ '':'' @ port)"

text \<open>\<open>strings.Contains s substr\<close>: \<open>substr\<close> starts at some position of \<open>s\<close>.\<close>

fun Contains :: "string \<Rightarrow> string \<Rightarrow> bool" where
  "Contains [] substr = (substr = [])"
| "Contains (c # s) substr = (prefix substr (c # s) \<or> Contains s substr)"

subsection \<open>The expressionless switch with \<open>fallthrough\<close>\<close>

text \<open>
  \<open>switch true { case c1: b1 ... }\<close> runs the body of the first case whose condition
  is true.  A body that is \<open>fallthrough\<close> passes control to the body of the next case,
  whatever that case's condition; a body that returns ends the function.  \<open>None\<close>:
  no case matched, or control fell off the end, and the statement after the switch runs.
\<close>

datatype 'a body = Fallthrough | Return 'a

fun run_bodies :: "'a body list \<Rightarrow> 'a option" where
  "run_bodies [] = None"
| "run_bodies (Fallthrough # bs) = run_bodies bs"
| "run_bodies (Return v # bs) = Some v"

fun switch_true :: "(bool \<times> 'a body) list \<Rightarrow> 'a option" where
  "switch_true [] = None"
| "switch_true ((c, b) # cs) =
     (if c then run_bodies (b # map snd cs) else switch_true cs)"

subsection \<open>\<open>IsPostgres\<close>\<close>

text \<open>
  The deferred \<open>conn.Close()\<close> runs after whichever return ends the function once the
  dial has succeeded: it is the last event of the trace.
\<close>

definition IsPostgres :: "env \<Rightarrow> string \<Rightarrow> int \<Rightarrow> (bool \<times> error option) \<times> event list" where
  "IsPostgres env host port =
     (let addr = host @ '':'' @ itoa port in
      case DialTimeout env addr of
        Some err \<Rightarrow> ((False, Some err), [Dial addr])
      | None \<Rightarrow>
          (let res = (case plugin_Run env addr host of
                        Inl err \<Rightarrow> (False, Some err)
                      | Inr None \<Rightarrow> (False, None)
                      | Inr (Some svc) \<Rightarrow> (True, None))
           in (res, [Dial addr, Acquire RawConn, SetDeadline, Detect host]
                      @ [Release RawConn])))"

subsection \<open>\<open>connect\<close>, \<open>Connect\<close> and \<open>ConnectWithDB\<close>\<close>

definition connect ::
  "env \<Rightarrow> string \<Rightarrow> int \<Rightarrow> string \<Rightarrow> string \<Rightarrow> string \<Rightarrow> (bool \<times> error option) \<times> event list" where
  "connect env host port username password dbName =
     (if host = [] \<or> port \<le> 0 then ((False, Some (Error ''invalid host or port'')), [])
      else
        let target = JoinHostPort host (itoa port);
            db = \<lparr>Addr = target, User = username, Password = password, Database = dbName\<rparr>
        in case pg_Exec env db ''select 1'' of
             Some err \<Rightarrow>
               ((case switch_true
                   [(Contains (message err) ''connect: connection refused'', Fallthrough),
                    (Contains (message err) ''no pg_hba.conf entry for host'', Fallthrough),
                    (Contains (message err) ''network unreachable'', Fallthrough),
                    (Contains (message err) ''reset'', Fallthrough),
                    (Contains (message err) ''i/o timeout'', Return (False, Some err))] of
                   Some r \<Rightarrow> r
                 | None \<Rightarrow> (False, None)),
                [Acquire PgDB, Exec db ''select 1''])
           | None \<Rightarrow> ((True, None), [Acquire PgDB, Exec db ''select 1'']))"

definition Connect ::
  "env \<Rightarrow> string \<Rightarrow> int \<Rightarrow> string \<Rightarrow> string \<Rightarrow> (bool \<times> error option) \<times> event list" where
  "Connect env host port username password =
     connect env host port username password ''postgres''"

definition ConnectWithDB ::
  "env \<Rightarrow> string \<Rightarrow> int \<Rightarrow> string \<Rightarrow> string \<Rightarrow> string \<Rightarrow> (bool \<times> error option) \<times> event list" where
  "ConnectWithDB env host port username password dbName =
     connect env host port username password dbName"

subsection \<open>Scanning a row (database/sql)\<close>

text \<open>
  The functions of this subsection are not code of the package: they are the documented
  behaviour of \<open>rows.Scan\<close> and of the \<open>Scan\<close> methods of \<open>sql.NullString\<close>,
  \<open>sql.NullBool\<close>, \<open>sql.NullInt64\<close>, \<open>sql.NullFloat64\<close> and \<open>sql.NullInt32\<close>,
  which the package calls.

  \<open>convertAssign\<close> into the field of a holder.  A source value of the field's own type
  is stored as it is, and bytes become the string with the same bytes; every other
  conversion is the library's.
\<close>

definition convertAssign_string :: "env \<Rightarrow> driver_value \<Rightarrow> error + string" where
  "convertAssign_string env v =
     (case v of DString s \<Rightarrow> Inr s | DBytes b \<Rightarrow> Inr b | _ \<Rightarrow> convert_string env v)"

definition convertAssign_bool :: "env \<Rightarrow> driver_value \<Rightarrow> error + bool" where
  "convertAssign_bool env v = (case v of DBool b \<Rightarrow> Inr b | _ \<Rightarrow> convert_bool env v)"

definition convertAssign_int64 :: "env \<Rightarrow> driver_value \<Rightarrow> error + int64" where
  "convertAssign_int64 env v = (case v of DInt64 n \<Rightarrow> Inr n | _ \<Rightarrow> convert_int64 env v)"

definition convertAssign_float64 :: "env \<Rightarrow> driver_value \<Rightarrow> error + float64" where
  "convertAssign_float64 env v = (case v of DFloat64 f \<Rightarrow> Inr f | _ \<Rightarrow> convert_float64 env v)"

text \<open>
  The \<open>Scan\<close> method of the nullable structs: NULL clears the value and the flag, any
  other source sets the flag and converts into the value.
\<close>

fun holder_Scan :: "env \<Rightarrow> holder \<Rightarrow> driver_value \<Rightarrow> error + holder" where
  "holder_Scan env (NullString s valid) v =
     (if v = DNil then Inr (NullString [] False)
      else case convertAssign_string env v of
             Inl e \<Rightarrow> Inl e | Inr s' \<Rightarrow> Inr (NullString s' True))"
| "holder_Scan env (NullBool b valid) v =
     (if v = DNil then Inr (NullBool False False)
      else case convertAssign_bool env v of
             Inl e \<Rightarrow> Inl e | Inr b' \<Rightarrow> Inr (NullBool b' True))"
| "holder_Scan env (NullInt64 n valid) v =
     (if v = DNil then Inr (NullInt64 0 False)
      else case convertAssign_int64 env v of
             Inl e \<Rightarrow> Inl e | Inr n' \<Rightarrow> Inr (NullInt64 n' True))"
| "holder_Scan env (NullFloat64 f valid) v =
     (if v = DNil then Inr (NullFloat64 0 False)
      else case convertAssign_float64 env v of
             Inl e \<Rightarrow> Inl e | Inr f' \<Rightarrow> Inr (NullFloat64 f' True))"
| "holder_Scan env (NullInt32 n valid) v =
     (if v = DNil then Inr (NullInt32 0 False)
      else case convert_int32 env v of
             Inl e \<Rightarrow> Inl e | Inr n' \<Rightarrow> Inr (NullInt32 n' True))"

text \<open>
  One destination of \<open>rows.Scan\<close>.  An element of \<open>scanArgs\<close> that was never assigned
  is the nil interface, which is no pointer.
\<close>

definition convertAssignRows :: "env \<Rightarrow> holder option \<Rightarrow> driver_value \<Rightarrow> error + holder option" where
  "convertAssignRows env dest sv =
     (case dest of
        None \<Rightarrow> Inl (Error ''destination not a pointer'')
      | Some h \<Rightarrow> (case holder_Scan env h sv of Inl e \<Rightarrow> Inl e | Inr h' \<Rightarrow> Inr (Some h')))"

text \<open>
  \<open>rows.Scan(dest...)\<close>: the number of destinations must be the number of columns of the
  current row; then the columns are converted in order and the first failure ends the
  scan.  The holders are written through their pointers; the model returns them.
\<close>

fun scan_columns :: "env \<Rightarrow> nat \<Rightarrow> holder option list \<Rightarrow> driver_value list \<Rightarrow> error + holder option list" where
  "scan_columns env i dest [] = Inr dest"
| "scan_columns env i [] (sv # lastcols) = Inr []"
| "scan_columns env i (d # dest) (sv # lastcols) =
     (case convertAssignRows env d sv of
        Inl e \<Rightarrow> Inl (scan_error env i e)
      | Inr d' \<Rightarrow>
          (case scan_columns env (Suc i) dest lastcols of
             Inl e \<Rightarrow> Inl e
           | Inr ds \<Rightarrow> Inr (d' # ds)))"

definition Scan :: "env \<Rightarrow> holder option list \<Rightarrow> driver_value list \<Rightarrow> error + holder option list" where
  "Scan env dest lastcols =
     (if length dest \<noteq> length lastcols
      then Inl (Error (''sql: expected '' @ utoa (length lastcols)
                        @ '' destination arguments in Scan, not '' @ utoa (length dest)))
      else scan_columns env 0 dest lastcols)"

subsection \<open>\<open>unmarshalSQLRows\<close>\<close>

text \<open>The switch on \<open>v.DatabaseTypeName()\<close>: the freshly allocated holder.\<close>

definition new_holder :: "string \<Rightarrow> holder" where
  "new_holder t =
     (if t = ''VARCHAR'' \<or> t = ''TEXT'' \<or> t = ''UUID'' \<or> t = ''TIMESTAMP''
        then NullString [] False
      else if t = ''BOOL'' then NullBool False False
      else if t = ''INT4'' then NullInt64 0 False
      else NullString [] False)"

text \<open>
  The first inner loop, \<open>for i, v := range columnTypes\<close>, assigning \<open>scanArgs[i]\<close>.
  The index stays below \<open>count\<close>, the length of \<open>scanArgs\<close>
  (lemma \<open>length_fill_scanArgs\<close> and \<open>fill_scanArgs_eq\<close> below).
\<close>

fun fill_scanArgs :: "column_type list \<Rightarrow> nat \<Rightarrow> holder option list \<Rightarrow> holder option list" where
  "fill_scanArgs [] i scanArgs = scanArgs"
| "fill_scanArgs (v # vs) i scanArgs =
     fill_scanArgs vs (Suc i) (scanArgs[i := Some (new_holder (DatabaseTypeName v))])"

text \<open>The chain of type assertions on \<open>scanArgs[i]\<close>, in the order of the source.\<close>

fun unwrap :: "holder option \<Rightarrow> colvalue" where
  "unwrap (Some (NullBool b valid)) = VBool b"
| "unwrap (Some (NullString s valid)) = VString s"
| "unwrap (Some (NullInt64 n valid)) = VInt64 n"
| "unwrap (Some (NullFloat64 f valid)) = VFloat64 f"
| "unwrap (Some (NullInt32 n valid)) = VInt32 n"
| "unwrap d = VRaw d"

text \<open>
  The second inner loop, storing into the Go map \<open>masterData\<close>: a later column
  with the name of an earlier one overwrites its entry.
\<close>

fun fill_masterData :: "column_type list \<Rightarrow> nat \<Rightarrow> holder option list \<Rightarrow> masterData \<Rightarrow> masterData" where
  "fill_masterData [] i scanArgs m = m"
| "fill_masterData (v # vs) i scanArgs m =
     fill_masterData vs (Suc i) scanArgs (m(Name v \<mapsto> unwrap (scanArgs ! i)))"

text \<open>The body of \<open>for rows.Next()\<close> for one row.\<close>

definition decode_row :: "env \<Rightarrow> column_type list \<Rightarrow> nat \<Rightarrow> driver_value list \<Rightarrow> error + masterData" where
  "decode_row env columnTypes count row =
     (let scanArgs = fill_scanArgs columnTypes 0 (replicate count None) in
      case Scan env scanArgs row of
        Inl err \<Rightarrow> Inl err
      | Inr scanned \<Rightarrow> Inr (fill_masterData columnTypes 0 scanned Map.empty))"

text \<open>The loop \<open>for rows.Next()\<close> over the rows the cursor yields.\<close>

fun rows_loop ::
  "env \<Rightarrow> column_type list \<Rightarrow> nat \<Rightarrow> driver_value list list \<Rightarrow> masterData list \<Rightarrow> error + masterData list" where
  "rows_loop env columnTypes count [] finalRows = Inr finalRows"
| "rows_loop env columnTypes count (row # rest) finalRows =
     (case decode_row env columnTypes count row of
        Inl err \<Rightarrow> Inl err
      | Inr md \<Rightarrow> rows_loop env columnTypes count rest (finalRows @ [md]))"

text \<open>
  When \<open>Next\<close> returns false database/sql closes the cursor itself; a return from
  inside the loop, or before it, leaves the cursor as it is.
\<close>

definition unmarshalSQLRows :: "env \<Rightarrow> sql_rows \<Rightarrow> (error + string) \<times> event list" where
  "unmarshalSQLRows env rows =
     (case ColumnTypes rows of
        Inl err \<Rightarrow> (Inl err, [])
      | Inr columnTypes \<Rightarrow>
          (let count = length columnTypes in
           case rows_loop env columnTypes count (pending rows) [] of
             Inl err \<Rightarrow> (Inl err, [])
           | Inr finalRows \<Rightarrow> (Marshal env finalRows, [Release SqlRows])))"

subsection \<open>\<open>ExecuteQuery\<close>\<close>

text \<open>
  \<open>fmt.Sprintf("postgres://%s:%s@%s/%s?sslmode=disable", username, password, target, dbName)\<close>
\<close>

definition connStr :: "string \<Rightarrow> string \<Rightarrow> string \<Rightarrow> string \<Rightarrow> string" where
  "connStr username password target dbName =
     ''postgres://'' @ username @ '':'' @ password @ ''@'' @ target
       @ ''/'' @ dbName @ ''?sslmode=disable''"

definition ExecuteQuery ::
  "env \<Rightarrow> string \<Rightarrow> int \<Rightarrow> string \<Rightarrow> string \<Rightarrow> string \<Rightarrow> string \<Rightarrow> (error + string) \<times> event list" where
  "ExecuteQuery env host port username password dbName query =
     (let target = JoinHostPort host (itoa port);
          cs = connStr username password target dbName
      in case sql_Open env cs of
           Some err \<Rightarrow> (Inl err, [])
         | None \<Rightarrow>
             (case db_Query env cs query of
                Inl err \<Rightarrow> (Inl err, [Acquire SqlDB, Query cs query])
              | Inr rows \<Rightarrow>
                  (case unmarshalSQLRows env rows of
                     (Inl err, tr) \<Rightarrow>
                       (Inl err, [Acquire SqlDB, Query cs query, Acquire SqlRows] @ tr)
                   | (Inr resp, tr) \<Rightarrow>
                       (Inr resp, [Acquire SqlDB, Query cs query, Acquire SqlRows] @ tr))))"

subsection \<open>The decoder with the strategy fixed once\<close>

text \<open>
  The row decoder as the specification words it: the column type metadata is inspected
  once, before the rows are iterated, to fix the destination of every column
  (\<open>spec_decode_strategy\<close>); every row is then scanned into these destinations.
  It is compared with \<open>unmarshalSQLRows\<close> below.
\<close>

definition spec_decode_strategy :: "column_type list \<Rightarrow> holder option list" where
  "spec_decode_strategy columnTypes =
     map (\<lambda>v. Some (new_holder (DatabaseTypeName v))) columnTypes"

fun spec_rows_loop ::
  "env \<Rightarrow> column_type list \<Rightarrow> holder option list \<Rightarrow> driver_value list list \<Rightarrow> masterData list
     \<Rightarrow> error + masterData list" where
  "spec_rows_loop env columnTypes strategy [] finalRows = Inr finalRows"
| "spec_rows_loop env columnTypes strategy (row # rest) finalRows =
     (case Scan env strategy row of
        Inl err \<Rightarrow> Inl err
      | Inr scanned \<Rightarrow>
          spec_rows_loop env columnTypes strategy rest
            (finalRows @ [fill_masterData columnTypes 0 scanned Map.empty]))"

definition spec_unmarshalSQLRows :: "env \<Rightarrow> sql_rows \<Rightarrow> (error + string) \<times> event list" where
  "spec_unmarshalSQLRows env rows =
     (case ColumnTypes rows of
        Inl err \<Rightarrow> (Inl err, [])
      | Inr columnTypes \<Rightarrow>
          (let strategy = spec_decode_strategy columnTypes in
           case spec_rows_loop env columnTypes strategy (pending rows) [] of
             Inl err \<Rightarrow> (Inl err, [])
           | Inr finalRows \<Rightarrow> (Marshal env finalRows, [Release SqlRows])))"

subsection \<open>A sample result set and a sample answer of the libraries\<close>

text \<open>
  The result set with columns \<open>id INT4\<close>, \<open>name TEXT\<close>, \<open>active BOOL\<close> and the rows
  \<open>(1, "alice", true)\<close>, \<open>(2, NULL, NULL)\<close>.
\<close>

definition sample_columns :: "column_type list" where
  "sample_columns =
     [\<lparr>Name = ''id'', DatabaseTypeName = ''INT4''\<rparr>,
      \<lparr>Name = ''name'', DatabaseTypeName = ''TEXT''\<rparr>,
      \<lparr>Name = ''active'', DatabaseTypeName = ''BOOL''\<rparr>]"

definition sample_rows :: sql_rows where
  "sample_rows =
     \<lparr>ColumnTypes = Inr sample_columns,
      pending = [[DInt64 1, DString ''alice'', DBool True], [DInt64 2, DNil, DNil]],
      lasterr = None\<rparr>"

text \<open>
  Libraries for which every call succeeds: the server is there, accepts the
  credentials and answers every query with the sample result set.
\<close>

definition sample_env :: env where
  "sample_env =
     \<lparr>DialTimeout = (\<lambda>addr. None),
      plugin_Run = (\<lambda>addr host. Inr (Some (Service ''postgresql''))),
      pg_Exec = (\<lambda>opts q. None),
      sql_Open = (\<lambda>cs. None),
      db_Query = (\<lambda>cs q. Inr sample_rows),
      convert_string = (\<lambda>v. Inl (Error ''unsupported conversion'')),
      convert_bool = (\<lambda>v. Inl (Error ''unsupported conversion'')),
      convert_int64 = (\<lambda>v. Inl (Error ''unsupported conversion'')),
      convert_float64 = (\<lambda>v. Inl (Error ''unsupported conversion'')),
      convert_int32 = (\<lambda>v. Inl (Error ''unsupported conversion'')),
      scan_error = (\<lambda>i e. e),
      Marshal = (\<lambda>ms. case ms of [] \<Rightarrow> Inr ''[]'' | m # ms' \<Rightarrow> Inr ''[{...}]'')\<rparr>"

section \<open>Properties\<close>

subsection \<open>Strings, the switch and the trace\<close>

lemma Contains_iff_sublist: "Contains s substr \<longleftrightarrow> sublist substr s"
  by (induction s) (simp_all add: sublist_Cons_right)

lemma itoa_examples: "itoa 5432 = ''5432''" "itoa (- 17) = ''-17''" "itoa 0 = ''0''"
  by (simp_all add: itoa_def utoa.simps)

lemma JoinHostPort_examples:
  "JoinHostPort ''10.0.0.7'' (itoa 5432) = ''10.0.0.7:5432''"
  "JoinHostPort ''::1'' (itoa 5432) = ''[::1]:5432''"
  by (simp_all add: JoinHostPort_def itoa_def utoa.simps)

lemma run_bodies_fallthrough:
  "run_bodies (replicate n Fallthrough @ [Return v]) = Some v"
  by (induction n) simp_all

subsection \<open>The credential check\<close>

text \<open>
  C1.  With a valid target, \<open>Connect\<close> and \<open>ConnectWithDB\<close> return \<open>(true, nil)\<close> when
  \<open>select 1\<close> succeeds.  When it fails with an error whose message contains one of
  \<open>connect: connection refused\<close>, \<open>no pg_hba.conf entry for host\<close>,
  \<open>network unreachable\<close>, \<open>reset\<close>, \<open>i/o timeout\<close> (as a contiguous, case-sensitive
  substring) they return \<open>(false, thatError)\<close>, and when the message contains none of
  them, \<open>(false, nil)\<close>.
\<close>

theorem connect_error_classification:
  assumes "host \<noteq> []" and "0 < port"
  shows "fst (ConnectWithDB env host port username password dbName) =
           (case pg_Exec env \<lparr>Addr = JoinHostPort host (itoa port), User = username,
                              Password = password, Database = dbName\<rparr> ''select 1'' of
              None \<Rightarrow> (True, None)
            | Some err \<Rightarrow>
                if \<exists>sub \<in> {''connect: connection refused'', ''no pg_hba.conf entry for host'',
                             ''network unreachable'', ''reset'', ''i/o timeout''}.
                     sublist sub (message err)
                then (False, Some err) else (False, None))
       \<and> fst (Connect env host port username password) =
           (case pg_Exec env \<lparr>Addr = JoinHostPort host (itoa port), User = username,
                              Password = password, Database = ''postgres''\<rparr> ''select 1'' of
              None \<Rightarrow> (True, None)
            | Some err \<Rightarrow>
                if \<exists>sub \<in> {''connect: connection refused'', ''no pg_hba.conf entry for host'',
                             ''network unreachable'', ''reset'', ''i/o timeout''}.
                     sublist sub (message err)
                then (False, Some err) else (False, None))"
  using assms
  by (simp add: Connect_def ConnectWithDB_def connect_def Let_def Contains_iff_sublist
           split: option.split)

theorem connect_error_classification_witness:
  "fst (Connect (sample_env\<lparr>pg_Exec := \<lambda>opts q. Some (Error ''read tcp 10.0.0.7:5432: connection reset by peer'')\<rparr>)
          ''10.0.0.7'' 5432 ''postgres'' ''secret'')
     = (False, Some (Error ''read tcp 10.0.0.7:5432: connection reset by peer''))
   \<and> fst (Connect (sample_env\<lparr>pg_Exec := \<lambda>opts q. Some (Error ''FATAL #28P01 password authentication failed'')\<rparr>)
          ''10.0.0.7'' 5432 ''postgres'' ''guess'')
     = (False, None)
   \<and> fst (Connect sample_env ''10.0.0.7'' 5432 ''postgres'' ''secret'') = (True, None)"
  using connect_error_classification [of "''10.0.0.7''" 5432
          "sample_env\<lparr>pg_Exec := \<lambda>opts q. Some (Error ''read tcp 10.0.0.7:5432: connection reset by peer'')\<rparr>"
          "''postgres''" "''secret''" "''postgres''"]
        connect_error_classification [of "''10.0.0.7''" 5432
          "sample_env\<lparr>pg_Exec := \<lambda>opts q. Some (Error ''FATAL #28P01 password authentication failed'')\<rparr>"
          "''postgres''" "''guess''" "''postgres''"]
        connect_error_classification [of "''10.0.0.7''" 5432 sample_env
          "''postgres''" "''secret''" "''postgres''"]
  by (simp add: sample_env_def sublist_code(3))

text \<open>
  C4.  With an empty host or a port that is not positive, \<open>Connect\<close> and
  \<open>ConnectWithDB\<close> return \<open>false\<close> and an error, and their trace is empty: no
  library has been called, so nothing was dialled, opened or executed.
\<close>

theorem invalid_target_fails_before_io:
  assumes "host = [] \<or> port \<le> 0"
  shows "Connect env host port username password
           = ((False, Some (Error ''invalid host or port'')), [])
       \<and> ConnectWithDB env host port username password dbName
           = ((False, Some (Error ''invalid host or port'')), [])"
  using assms by (auto simp: Connect_def ConnectWithDB_def connect_def)

theorem invalid_target_fails_before_io_witness:
  "Connect sample_env [] 5432 ''postgres'' ''secret''
     = ((False, Some (Error ''invalid host or port'')), [])
   \<and> ConnectWithDB sample_env ''10.0.0.7'' (- 1) ''postgres'' ''secret'' ''app''
     = ((False, Some (Error ''invalid host or port'')), [])"
  using invalid_target_fails_before_io [of "[]" 5432 sample_env "''postgres''" "''secret''" "''app''"]
        invalid_target_fails_before_io [of "''10.0.0.7''" "- 1" sample_env "''postgres''" "''secret''" "''app''"]
  by simp

text \<open>
  C8.  \<open>Connect\<close> is \<open>ConnectWithDB\<close> with the database name \<open>postgres\<close>: same
  result, same calls on the libraries.
\<close>

theorem Connect_is_ConnectWithDB_postgres:
  "Connect env host port username password
     = ConnectWithDB env host port username password ''postgres''"
  by (simp add: Connect_def ConnectWithDB_def)

text \<open>
  C3.  Every handle acquired during a call is to be closed before the call returns, and
  the comments of \<open>Connect\<close> and \<open>ConnectWithDB\<close> promise it.  \<open>connect\<close> never
  closes the handle that \<open>pg.Connect\<close> returns: a successful check ends with that
  handle open.  (\<open>connect_never_closes\<close> and \<open>ExecuteQuery_never_closes\<close> below:
  no path of \<open>connect\<close> or \<open>ExecuteQuery\<close> closes its database handle.)
\<close>

theorem Connect_leaves_handle_open:
  "Connect sample_env ''10.0.0.7'' 5432 ''postgres'' ''secret''
     = ((True, None),
        [Acquire PgDB,
         Exec \<lparr>Addr = JoinHostPort ''10.0.0.7'' (itoa 5432), User = ''postgres'',
               Password = ''secret'', Database = ''postgres''\<rparr> ''select 1''])
   \<and> held (snd (Connect sample_env ''10.0.0.7'' 5432 ''postgres'' ''secret'')) = [PgDB]"
  by (simp add: Connect_def connect_def sample_env_def held_def Let_def)

subsection \<open>The probe\<close>

text \<open>
  C6.  \<open>IsPostgres\<close> returns \<open>(false, thatError)\<close> when the dial fails;
  after a successful dial it returns \<open>(false, nil)\<close> when the plugin reports no
  service and no error, \<open>(false, thatError)\<close> when the plugin fails and
  \<open>(true, nil)\<close> when it reports a service, and in each of these cases the
  connection was acquired and its \<open>Close\<close> is the last thing that happens.  No
  handle is open when the function returns.
\<close>

theorem IsPostgres_outcomes:
  "(DialTimeout env (host @ '':'' @ itoa port) = Some err \<longrightarrow>
      IsPostgres env host port = ((False, Some err), [Dial (host @ '':'' @ itoa port)]))
   \<and> (DialTimeout env (host @ '':'' @ itoa port) = None \<longrightarrow>
        (plugin_Run env (host @ '':'' @ itoa port) host = Inr None \<longrightarrow>
           fst (IsPostgres env host port) = (False, None))
      \<and> (plugin_Run env (host @ '':'' @ itoa port) host = Inl err' \<longrightarrow>
           fst (IsPostgres env host port) = (False, Some err'))
      \<and> (plugin_Run env (host @ '':'' @ itoa port) host = Inr (Some svc) \<longrightarrow>
           fst (IsPostgres env host port) = (True, None))
      \<and> Acquire RawConn \<in> set (snd (IsPostgres env host port))
      \<and> last (snd (IsPostgres env host port)) = Release RawConn)
   \<and> held (snd (IsPostgres env host port)) = []"
  by (simp add: IsPostgres_def Let_def held_def split: option.split sum.split)

theorem IsPostgres_outcomes_witness:
  "IsPostgres (sample_env\<lparr>DialTimeout := \<lambda>addr. Some (Error ''dial tcp 10.0.0.7:5432: i/o timeout'')\<rparr>)
       ''10.0.0.7'' 5432
     = ((False, Some (Error ''dial tcp 10.0.0.7:5432: i/o timeout'')), [Dial (''10.0.0.7'' @ '':'' @ itoa 5432)])
   \<and> fst (IsPostgres (sample_env\<lparr>plugin_Run := \<lambda>addr host. Inr None\<rparr>) ''10.0.0.7'' 5432) = (False, None)
   \<and> last (snd (IsPostgres (sample_env\<lparr>plugin_Run := \<lambda>addr host. Inr None\<rparr>) ''10.0.0.7'' 5432))
       = Release RawConn
   \<and> fst (IsPostgres (sample_env\<lparr>plugin_Run := \<lambda>addr host. Inl (Error ''EOF'')\<rparr>) ''10.0.0.7'' 5432)
       = (False, Some (Error ''EOF''))
   \<and> fst (IsPostgres sample_env ''10.0.0.7'' 5432) = (True, None)"
  using IsPostgres_outcomes [of "sample_env\<lparr>DialTimeout := \<lambda>addr. Some (Error ''dial tcp 10.0.0.7:5432: i/o timeout'')\<rparr>"
           "''10.0.0.7''" 5432 "Error ''dial tcp 10.0.0.7:5432: i/o timeout''" "Error ''EOF''" "Service ''postgresql''"]
        IsPostgres_outcomes [of "sample_env\<lparr>plugin_Run := \<lambda>addr host. Inr None\<rparr>"
           "''10.0.0.7''" 5432 "Error ''EOF''" "Error ''EOF''" "Service ''postgresql''"]
        IsPostgres_outcomes [of "sample_env\<lparr>plugin_Run := \<lambda>addr host. Inl (Error ''EOF'')\<rparr>"
           "''10.0.0.7''" 5432 "Error ''EOF''" "Error ''EOF''" "Service ''postgresql''"]
        IsPostgres_outcomes [of sample_env
           "''10.0.0.7''" 5432 "Error ''EOF''" "Error ''EOF''" "Service ''postgresql''"]
  by (simp add: sample_env_def)

subsection \<open>The row decoder: destinations, scan and unwrap\<close>

lemma length_fill_scanArgs: "length (fill_scanArgs cts i args) = length args"
  by (induction cts arbitrary: i args) simp_all

lemma fill_scanArgs_gen:
  "i + length cts \<le> length args \<Longrightarrow>
   fill_scanArgs cts i args =
     take i args @ map (\<lambda>v. Some (new_holder (DatabaseTypeName v))) cts
       @ drop (i + length cts) args"
proof (induction cts arbitrary: i args)
  case Nil
  then show ?case by simp
next
  case (Cons v vs)
  let ?x = "Some (new_holder (DatabaseTypeName v))"
  from Cons.prems have i: "i < length args" by simp
  from Cons.prems have "Suc i + length vs \<le> length (args[i := ?x])" by simp
  from Cons.IH [OF this]
  have "fill_scanArgs (v # vs) i args =
          take (Suc i) (args[i := ?x]) @ map (\<lambda>v. Some (new_holder (DatabaseTypeName v))) vs
            @ drop (Suc i + length vs) (args[i := ?x])"
    by simp
  moreover have "take (Suc i) (args[i := ?x]) = take i args @ [?x]"
    using i by (simp add: take_Suc_conv_app_nth)
  moreover have "drop (Suc i + length vs) (args[i := ?x]) = drop (Suc i + length vs) args"
    by simp
  ultimately show ?case by simp
qed

lemma fill_scanArgs_eq:
  "fill_scanArgs cts 0 (replicate (length cts) None) = spec_decode_strategy cts"
  using fill_scanArgs_gen [of 0 cts "replicate (length cts) None"]
  by (simp add: spec_decode_strategy_def)

lemma rows_loop_spec:
  "rows_loop env cts (length cts) rs acc
     = spec_rows_loop env cts (spec_decode_strategy cts) rs acc"
  by (induction rs arbitrary: acc)
     (simp_all add: decode_row_def fill_scanArgs_eq split: sum.split)

lemma scan_columns_nth:
  "scan_columns env k dest row = Inr ds \<Longrightarrow> length dest = length row \<Longrightarrow>
   length ds = length row \<and>
   (\<forall>j<length row. convertAssignRows env (dest ! j) (row ! j) = Inr (ds ! j))"
proof (induction env k dest row arbitrary: ds rule: scan_columns.induct)
  case (1 env i dest)
  then show ?case by simp
next
  case (2 env i sv lastcols)
  then show ?case by simp
next
  case (3 env i d dest sv lastcols)
  from "3.prems"(1) obtain d' ds' where
    d': "convertAssignRows env d sv = Inr d'" and
    ds': "scan_columns env (Suc i) dest lastcols = Inr ds'" and
    ds: "ds = d' # ds'"
    by (auto split: sum.splits)
  from "3.prems"(2) have len: "length dest = length lastcols" by simp
  from "3.IH" [OF d' ds' len] d' ds show ?case
    by (auto simp: nth_Cons split: nat.split)
qed

lemma Scan_nth:
  assumes "Scan env dest row = Inr ds"
  shows "length dest = length row" and "length ds = length row"
    and "\<And>j. j < length row \<Longrightarrow> convertAssignRows env (dest ! j) (row ! j) = Inr (ds ! j)"
proof -
  from assms show len: "length dest = length row"
    by (simp add: Scan_def split: if_splits)
  with assms have "scan_columns env 0 dest row = Inr ds"
    by (simp add: Scan_def)
  from scan_columns_nth [OF this len]
  show "length ds = length row"
    and "\<And>j. j < length row \<Longrightarrow> convertAssignRows env (dest ! j) (row ! j) = Inr (ds ! j)"
    by simp_all
qed

lemma fill_masterData_lookup:
  "fill_masterData cts i args m k = Some v \<Longrightarrow>
   m k = Some v \<or> (\<exists>j<length cts. k = Name (cts ! j) \<and> v = unwrap (args ! (i + j)))"
proof (induction cts arbitrary: i m)
  case Nil
  then show ?case by simp
next
  case (Cons c cs)
  from Cons.prems have "fill_masterData cs (Suc i) args (m(Name c \<mapsto> unwrap (args ! i))) k = Some v"
    by simp
  from Cons.IH [OF this] show ?case
  proof
    assume "(m(Name c \<mapsto> unwrap (args ! i))) k = Some v"
    then show ?thesis by (auto split: if_splits)
  next
    assume "\<exists>j<length cs. k = Name (cs ! j) \<and> v = unwrap (args ! (Suc i + j))"
    then obtain j where "j < length cs" "k = Name (cs ! j)" "v = unwrap (args ! (Suc i + j))"
      by blast
    then have "Suc j < length (c # cs) \<and> k = Name ((c # cs) ! Suc j) \<and> v = unwrap (args ! (i + Suc j))"
      by simp
    then show ?thesis by blast
  qed
qed

lemma fill_masterData_other:
  "k \<notin> Name ` set cts \<Longrightarrow> fill_masterData cts i args m k = m k"
  by (induction cts arbitrary: i m) simp_all

lemma fill_masterData_last:
  "j < length cts \<Longrightarrow> (\<forall>l. j < l \<and> l < length cts \<longrightarrow> Name (cts ! l) \<noteq> Name (cts ! j)) \<Longrightarrow>
   fill_masterData cts i args m (Name (cts ! j)) = Some (unwrap (args ! (i + j)))"
proof (induction cts arbitrary: i j m)
  case Nil
  then show ?case by simp
next
  case (Cons c cs)
  show ?case
  proof (cases j)
    case 0
    with Cons.prems(2) have "\<forall>l<length cs. Name (cs ! l) \<noteq> Name c"
      by (metis Suc_less_eq length_Cons nth_Cons_0 nth_Cons_Suc zero_less_Suc)
    then have "Name c \<notin> Name ` set cs"
      by (auto simp: in_set_conv_nth)
    with 0 show ?thesis by (simp add: fill_masterData_other)
  next
    case (Suc j')
    with Cons.prems have j': "j' < length cs" by simp
    have "\<forall>l. j' < l \<and> l < length cs \<longrightarrow> Name (cs ! l) \<noteq> Name (cs ! j')"
    proof (intro allI impI)
      fix l assume "j' < l \<and> l < length cs"
      with Suc Cons.prems(2) [rule_format, of "Suc l"] show "Name (cs ! l) \<noteq> Name (cs ! j')"
        by simp
    qed
    from Cons.IH [OF j' this] Suc show ?thesis by simp
  qed
qed

lemma holder_Scan_new_holder_kind:
  "holder_Scan env (new_holder t) v = Inr h' \<Longrightarrow>
   (case h' of NullString s b \<Rightarrow> True | NullBool x b \<Rightarrow> True | NullInt64 n b \<Rightarrow> True | _ \<Rightarrow> False)"
  by (auto simp: new_holder_def split: if_splits sum.splits)

lemma holder_Scan_new_holder_nil: "holder_Scan env (new_holder t) DNil = Inr (new_holder t)"
  by (simp add: new_holder_def)

lemma decode_row_cells:
  assumes "decode_row env cts (length cts) row = Inr md"
  obtains scanned where
    "Scan env (spec_decode_strategy cts) row = Inr scanned"
    "length scanned = length cts" "length row = length cts"
    "md = fill_masterData cts 0 scanned Map.empty"
    "\<forall>j<length cts.
       \<exists>h'. holder_Scan env (new_holder (DatabaseTypeName (cts ! j))) (row ! j) = Inr h'
            \<and> scanned ! j = Some h'"
proof -
  from assms obtain scanned where
    sc: "Scan env (spec_decode_strategy cts) row = Inr scanned" and
    md: "md = fill_masterData cts 0 scanned Map.empty"
    by (auto simp: decode_row_def fill_scanArgs_eq split: sum.splits)
  from Scan_nth(1) [OF sc] have lr: "length row = length cts"
    by (simp add: spec_decode_strategy_def)
  from Scan_nth(2) [OF sc] lr have ls: "length scanned = length cts" by simp
  have cells: "\<exists>h'. holder_Scan env (new_holder (DatabaseTypeName (cts ! j))) (row ! j) = Inr h'
            \<and> scanned ! j = Some h'" if "j < length cts" for j
  proof -
    from that lr have "j < length row" by simp
    from Scan_nth(3) [OF sc this] that show ?thesis
      by (auto simp: spec_decode_strategy_def convertAssignRows_def split: sum.splits)
  qed
  then have "\<forall>j<length cts.
       \<exists>h'. holder_Scan env (new_holder (DatabaseTypeName (cts ! j))) (row ! j) = Inr h'
            \<and> scanned ! j = Some h'"
    by blast
  with sc ls lr md show ?thesis by (rule that)
qed

lemma Scan_strategy_kinds:
  assumes "Scan env (spec_decode_strategy cts) row = Inr scanned" and "d \<in> set scanned"
  shows "case d of Some (NullString s b) \<Rightarrow> True | Some (NullBool x b) \<Rightarrow> True
                 | Some (NullInt64 n b) \<Rightarrow> True | _ \<Rightarrow> False"
proof -
  from Scan_nth(1,2) [OF assms(1)] have lr: "length row = length cts" and ls: "length scanned = length cts"
    by (simp_all add: spec_decode_strategy_def)
  from assms(2) obtain j where j: "j < length scanned" and d: "d = scanned ! j"
    by (auto simp: in_set_conv_nth)
  from j ls lr have "j < length row" by simp
  from Scan_nth(3) [OF assms(1) this] j ls
  obtain h' where "holder_Scan env (new_holder (DatabaseTypeName (cts ! j))) (row ! j) = Inr h'"
    and "scanned ! j = Some h'"
    by (auto simp: spec_decode_strategy_def convertAssignRows_def split: sum.splits)
  with holder_Scan_new_holder_kind [of env "DatabaseTypeName (cts ! j)" "row ! j" h'] d
  show ?thesis by (cases h') simp_all
qed

lemma unwrap_kinds:
  "(case d of Some (NullString s b) \<Rightarrow> True | Some (NullBool x b) \<Rightarrow> True
            | Some (NullInt64 n b) \<Rightarrow> True | _ \<Rightarrow> False) \<Longrightarrow>
   (case unwrap d of VBool x \<Rightarrow> True | VString s \<Rightarrow> True | VInt64 n \<Rightarrow> True | _ \<Rightarrow> False)"
  by (auto split: option.splits holder.splits)

lemma decode_row_values:
  assumes "decode_row env cts (length cts) row = Inr md" and "md k = Some v"
  shows "case v of VBool x \<Rightarrow> True | VString s \<Rightarrow> True | VInt64 n \<Rightarrow> True | _ \<Rightarrow> False"
proof -
  from assms(1) obtain scanned where
    sc: "Scan env (spec_decode_strategy cts) row = Inr scanned" and
    ls: "length scanned = length cts" and
    md: "md = fill_masterData cts 0 scanned Map.empty"
    by (rule decode_row_cells)
  from assms(2) md fill_masterData_lookup [of cts 0 scanned Map.empty k v]
  obtain j where j: "j < length cts" and v: "v = unwrap (scanned ! j)"
    by auto
  from j ls have "scanned ! j \<in> set scanned" by simp
  from unwrap_kinds [OF Scan_strategy_kinds [OF sc this]] v show ?thesis by simp
qed

lemma rows_loop_members:
  "rows_loop env cts n rs acc = Inr finalRows \<Longrightarrow> md \<in> set finalRows \<Longrightarrow>
   md \<in> set acc \<or> (\<exists>row \<in> set rs. decode_row env cts n row = Inr md)"
proof (induction rs arbitrary: acc)
  case Nil
  then show ?case by simp
next
  case (Cons row rest)
  from Cons.prems(1) obtain md' where
    d: "decode_row env cts n row = Inr md'" and
    l: "rows_loop env cts n rest (acc @ [md']) = Inr finalRows"
    by (auto split: sum.splits)
  from Cons.IH [OF l Cons.prems(2)] d show ?case by auto
qed

lemma rows_loop_all_decoded:
  "map (decode_row env cts n) rs = map Inr mds \<Longrightarrow> rows_loop env cts n rs acc = Inr (acc @ mds)"
proof (induction rs arbitrary: acc mds)
  case Nil
  then show ?case by simp
next
  case (Cons row rest)
  from Cons.prems obtain md mds' where mds: "mds = md # mds'"
    and d: "decode_row env cts n row = Inr md"
    and r: "map (decode_row env cts n) rest = map Inr mds'"
    by (cases mds) auto
  from Cons.IH [OF r, of "acc @ [md]"] d mds show ?case by simp
qed

lemma fst_ExecuteQuery:
  "sql_Open env (connStr username password (JoinHostPort host (itoa port)) dbName) = None \<Longrightarrow>
   db_Query env (connStr username password (JoinHostPort host (itoa port)) dbName) query = Inr rows \<Longrightarrow>
   ExecuteQuery env host port username password dbName query
     = (fst (unmarshalSQLRows env rows),
        [Acquire SqlDB, Query (connStr username password (JoinHostPort host (itoa port)) dbName) query,
         Acquire SqlRows] @ snd (unmarshalSQLRows env rows))"
  by (simp add: ExecuteQuery_def Let_def split: prod.split sum.split)

lemma unmarshalSQLRows_all_decoded:
  "ColumnTypes rows = Inr cts \<Longrightarrow>
   map (decode_row env cts (length cts)) (pending rows) = map Inr mds \<Longrightarrow>
   unmarshalSQLRows env rows = (Marshal env mds, [Release SqlRows])"
  using rows_loop_all_decoded [of env cts "length cts" "pending rows" mds "[]"]
  by (simp add: unmarshalSQLRows_def)

lemma decode_sample_row1:
  "decode_row env sample_columns (length sample_columns) [DInt64 1, DString ''alice'', DBool True]
     = Inr [''id'' \<mapsto> VInt64 1, ''name'' \<mapsto> VString ''alice'', ''active'' \<mapsto> VBool True]"
  by (simp add: sample_columns_def decode_row_def Scan_def
          convertAssignRows_def convertAssign_string_def convertAssign_bool_def
          convertAssign_int64_def new_holder_def)

lemma decode_sample_row2:
  "decode_row env sample_columns (length sample_columns) [DInt64 2, DNil, DNil]
     = Inr [''id'' \<mapsto> VInt64 2, ''name'' \<mapsto> VString [], ''active'' \<mapsto> VBool False]"
  by (simp add: sample_columns_def decode_row_def Scan_def
          convertAssignRows_def convertAssign_string_def convertAssign_bool_def
          convertAssign_int64_def new_holder_def)

lemma unmarshal_sample_rows:
  "unmarshalSQLRows env sample_rows
     = (Marshal env
          [[''id'' \<mapsto> VInt64 1, ''name'' \<mapsto> VString ''alice'', ''active'' \<mapsto> VBool True],
           [''id'' \<mapsto> VInt64 2, ''name'' \<mapsto> VString [], ''active'' \<mapsto> VBool False]],
        [Release SqlRows])"
  by (rule unmarshalSQLRows_all_decoded [where cts = sample_columns])
     (simp_all add: sample_rows_def decode_sample_row1 decode_sample_row2)

lemma null_cell_value:
  assumes d: "decode_row env cts (length cts) row = Inr md"
    and i: "i < length cts" and n: "row ! i = DNil"
    and last: "\<forall>j. i < j \<and> j < length cts \<longrightarrow> Name (cts ! j) \<noteq> Name (cts ! i)"
  shows "md (Name (cts ! i)) = Some (unwrap (Some (new_holder (DatabaseTypeName (cts ! i)))))"
proof -
  from d obtain scanned where
    "Scan env (spec_decode_strategy cts) row = Inr scanned" and
    "length scanned = length cts" and "length row = length cts" and
    md: "md = fill_masterData cts 0 scanned Map.empty" and
    cells: "\<forall>j<length cts.
       \<exists>h'. holder_Scan env (new_holder (DatabaseTypeName (cts ! j))) (row ! j) = Inr h'
            \<and> scanned ! j = Some h'"
    by (rule decode_row_cells)
  from cells i obtain h' where
    "holder_Scan env (new_holder (DatabaseTypeName (cts ! i))) (row ! i) = Inr h'"
    and "scanned ! i = Some h'"
    by blast
  with n have "scanned ! i = Some (new_holder (DatabaseTypeName (cts ! i)))"
    by (simp add: holder_Scan_new_holder_nil)
  with fill_masterData_last [OF i last, of 0 scanned Map.empty] md show ?thesis by simp
qed

lemma connect_never_closes: "Release PgDB \<notin> set (snd (connect env host port username password dbName))"
  by (simp add: connect_def Let_def split: option.split)

lemma unmarshalSQLRows_trace:
  "snd (unmarshalSQLRows env rows) = [] \<or> snd (unmarshalSQLRows env rows) = [Release SqlRows]"
  by (simp add: unmarshalSQLRows_def Let_def split: sum.split)

lemma ExecuteQuery_never_closes:
  "Release SqlDB \<notin> set (snd (ExecuteQuery env host port username password dbName query))"
proof (cases "sql_Open env (connStr username password (JoinHostPort host (itoa port)) dbName)")
  case (Some err)
  then show ?thesis by (simp add: ExecuteQuery_def Let_def)
next
  case None
  show ?thesis
  proof (cases "db_Query env (connStr username password (JoinHostPort host (itoa port)) dbName) query")
    case (Inl err)
    with None show ?thesis by (simp add: ExecuteQuery_def Let_def)
  next
    case (Inr rows)
    from fst_ExecuteQuery [OF None Inr] unmarshalSQLRows_trace [of env rows]
    show ?thesis by auto
  qed
qed

subsection \<open>The query path\<close>

text \<open>
  C5.  The destination of a column is chosen by the column's declared type name:
  \<open>VARCHAR\<close>, \<open>TEXT\<close>, \<open>UUID\<close> and \<open>TIMESTAMP\<close> give a nullable string, \<open>BOOL\<close> a
  nullable boolean, \<open>INT4\<close> a nullable 64-bit integer and every other name a nullable
  string; and the destination of column \<open>i\<close> of a result set is the one chosen for
  the declared type name of column \<open>i\<close>.
\<close>

theorem holder_selected_by_declared_type:
  "(t \<in> {''VARCHAR'', ''TEXT'', ''UUID'', ''TIMESTAMP''} \<longrightarrow> new_holder t = NullString [] False)
   \<and> (t = ''BOOL'' \<longrightarrow> new_holder t = NullBool False False)
   \<and> (t = ''INT4'' \<longrightarrow> new_holder t = NullInt64 0 False)
   \<and> (t \<notin> {''VARCHAR'', ''TEXT'', ''UUID'', ''TIMESTAMP'', ''BOOL'', ''INT4''}
        \<longrightarrow> new_holder t = NullString [] False)
   \<and> (i < length columnTypes \<longrightarrow>
        fill_scanArgs columnTypes 0 (replicate (length columnTypes) None) ! i
          = Some (new_holder (DatabaseTypeName (columnTypes ! i))))"
  by (simp add: new_holder_def fill_scanArgs_eq spec_decode_strategy_def)

theorem holder_selected_by_declared_type_witness:
  "new_holder ''UUID'' = NullString [] False
   \<and> new_holder ''BOOL'' = NullBool False False
   \<and> new_holder ''INT4'' = NullInt64 0 False
   \<and> new_holder ''NUMERIC'' = NullString [] False
   \<and> fill_scanArgs sample_columns 0 (replicate (length sample_columns) None) ! 2
       = Some (NullBool False False)"
  using holder_selected_by_declared_type [of "''UUID''" 2 sample_columns]
        holder_selected_by_declared_type [of "''BOOL''" 2 sample_columns]
        holder_selected_by_declared_type [of "''INT4''" 2 sample_columns]
        holder_selected_by_declared_type [of "''NUMERIC''" 2 sample_columns]
  by (simp add: sample_columns_def)

text \<open>
  C7.  The destinations that a row is scanned into are a function of the column
  type metadata alone (element \<open>i\<close> is the holder chosen for the declared type of
  column \<open>i\<close>; no row takes part in it), and \<open>unmarshalSQLRows\<close> returns what the
  decoder that fixes the strategy once, before the rows are iterated, returns.
\<close>

theorem strategy_fixed_per_column:
  "fill_scanArgs columnTypes 0 (replicate (length columnTypes) None)
     = map (\<lambda>v. Some (new_holder (DatabaseTypeName v))) columnTypes
   \<and> unmarshalSQLRows env rows = spec_unmarshalSQLRows env rows"
  using fill_scanArgs_eq [of columnTypes]
  by (simp add: unmarshalSQLRows_def spec_unmarshalSQLRows_def rows_loop_spec
        spec_decode_strategy_def split: sum.split)

text \<open>
  C9.  Every destination that a row was scanned into is a nullable string, a nullable
  boolean or a nullable 64-bit integer, and every value stored in a decoded row comes
  from the \<open>Bool\<close>, \<open>String\<close> or \<open>Int64\<close> branch of the unwrap chain: the
  \<open>NullFloat64\<close> branch, the \<open>NullInt32\<close> branch and the raw fallback are never taken.
\<close>

theorem unwrap_float_int32_raw_unreachable:
  "(Scan env (fill_scanArgs cts 0 (replicate (length cts) None)) row = Inr scanned \<longrightarrow>
      (\<forall>d \<in> set scanned.
         case d of Some (NullString s b) \<Rightarrow> True | Some (NullBool x b) \<Rightarrow> True
                 | Some (NullInt64 n b) \<Rightarrow> True | _ \<Rightarrow> False))
   \<and> (rows_loop env cts (length cts) rs [] = Inr finalRows \<longrightarrow>
        (\<forall>md \<in> set finalRows. \<forall>k v. md k = Some v \<longrightarrow>
           (case v of VBool x \<Rightarrow> True | VString s \<Rightarrow> True | VInt64 n \<Rightarrow> True | _ \<Rightarrow> False)))"
proof (intro conjI impI ballI allI)
  fix d assume "Scan env (fill_scanArgs cts 0 (replicate (length cts) None)) row = Inr scanned"
    and "d \<in> set scanned"
  then show "case d of Some (NullString s b) \<Rightarrow> True | Some (NullBool x b) \<Rightarrow> True
                 | Some (NullInt64 n b) \<Rightarrow> True | _ \<Rightarrow> False"
    using Scan_strategy_kinds [of env cts row scanned d] by (simp add: fill_scanArgs_eq)
next
  fix md k v
  assume l: "rows_loop env cts (length cts) rs [] = Inr finalRows" and m: "md \<in> set finalRows"
    and v: "md k = Some v"
  from rows_loop_members [OF l m] obtain row where "decode_row env cts (length cts) row = Inr md"
    by auto
  from decode_row_values [OF this v]
  show "case v of VBool x \<Rightarrow> True | VString s \<Rightarrow> True | VInt64 n \<Rightarrow> True | _ \<Rightarrow> False" .
qed

theorem unwrap_float_int32_raw_unreachable_witness:
  "rows_loop sample_env sample_columns (length sample_columns) (pending sample_rows) []
     = Inr [[''id'' \<mapsto> VInt64 1, ''name'' \<mapsto> VString ''alice'', ''active'' \<mapsto> VBool True],
            [''id'' \<mapsto> VInt64 2, ''name'' \<mapsto> VString [], ''active'' \<mapsto> VBool False]]
   \<and> Scan sample_env (fill_scanArgs sample_columns 0 (replicate (length sample_columns) None))
        [DInt64 2, DNil, DNil]
     = Inr [Some (NullInt64 2 True), Some (NullString [] False), Some (NullBool False False)]
   \<and> (case Some (NullInt64 2 True) of
          Some (NullString s b) \<Rightarrow> True | Some (NullBool x b) \<Rightarrow> True
        | Some (NullInt64 n b) \<Rightarrow> True | _ \<Rightarrow> False)
   \<and> (case the ([''id'' \<mapsto> VInt64 2, ''name'' \<mapsto> VString [], ''active'' \<mapsto> VBool False] ''active'') of
          VBool x \<Rightarrow> True | VString s \<Rightarrow> True | VInt64 n \<Rightarrow> True | _ \<Rightarrow> False)"
proof -
  have loop: "rows_loop sample_env sample_columns (length sample_columns) (pending sample_rows) []
     = Inr [[''id'' \<mapsto> VInt64 1, ''name'' \<mapsto> VString ''alice'', ''active'' \<mapsto> VBool True],
            [''id'' \<mapsto> VInt64 2, ''name'' \<mapsto> VString [], ''active'' \<mapsto> VBool False]]"
    by (simp add: sample_rows_def decode_sample_row1 decode_sample_row2)
  have scan: "Scan sample_env (fill_scanArgs sample_columns 0 (replicate (length sample_columns) None))
        [DInt64 2, DNil, DNil]
     = Inr [Some (NullInt64 2 True), Some (NullString [] False), Some (NullBool False False)]"
    by (simp add: sample_columns_def sample_env_def Scan_def
          convertAssignRows_def convertAssign_string_def convertAssign_bool_def
          convertAssign_int64_def new_holder_def)
  from unwrap_float_int32_raw_unreachable
         [of sample_env sample_columns "[DInt64 2, DNil, DNil]"
             "[Some (NullInt64 2 True), Some (NullString [] False), Some (NullBool False False)]"
             "pending sample_rows"
             "[[''id'' \<mapsto> VInt64 1, ''name'' \<mapsto> VString ''alice'', ''active'' \<mapsto> VBool True],
               [''id'' \<mapsto> VInt64 2, ''name'' \<mapsto> VString [], ''active'' \<mapsto> VBool False]]"]
       loop scan
  show ?thesis by simp
qed

text \<open>
  C2.  Scanning SQL NULL into the destination chosen for a column and unwrapping it gives
  the zero value of that destination: the empty string for a nullable string, \<open>false\<close>
  for a nullable boolean, \<open>0\<close> for a nullable 64-bit integer.  A cell that holds this
  zero value unwraps to the same stored value as a NULL cell, so the output carries no
  mark of the NULL.  In a decoded row the NULL column is stored under its name with that
  zero value (when no later column repeats the name: \<open>masterData\<close> is a map).  For the
  result set with columns \<open>id INT4\<close>, \<open>name TEXT\<close>, \<open>active BOOL\<close> and rows
  \<open>(1, "alice", true)\<close>, \<open>(2, NULL, NULL)\<close>, \<open>ExecuteQuery\<close> returns the
  serialisation of the array
  \<open>[{id: 1, name: "alice", active: true}, {id: 2, name: "", active: false}]\<close>.
\<close>

theorem null_decodes_to_zero_value:
  "map_sum id (\<lambda>h. unwrap (Some h)) (holder_Scan env (new_holder t) DNil)
     = Inr (case new_holder t of NullString s b \<Rightarrow> VString [] | NullBool x b \<Rightarrow> VBool False
                               | _ \<Rightarrow> VInt64 0)
   \<and> map_sum id (\<lambda>h. unwrap (Some h))
         (holder_Scan env (new_holder t)
            (case new_holder t of NullString s b \<Rightarrow> DString [] | NullBool x b \<Rightarrow> DBool False
                                | _ \<Rightarrow> DInt64 0))
     = map_sum id (\<lambda>h. unwrap (Some h)) (holder_Scan env (new_holder t) DNil)
   \<and> (decode_row env cts (length cts) row = Inr md \<and> i < length cts \<and> row ! i = DNil
      \<and> (\<forall>j. i < j \<and> j < length cts \<longrightarrow> Name (cts ! j) \<noteq> Name (cts ! i)) \<longrightarrow>
      (case new_holder (DatabaseTypeName (cts ! i)) of
         NullString s b \<Rightarrow> md (Name (cts ! i)) = Some (VString [])
       | NullBool x b \<Rightarrow> md (Name (cts ! i)) = Some (VBool False)
       | NullInt64 n b \<Rightarrow> md (Name (cts ! i)) = Some (VInt64 0)
       | _ \<Rightarrow> False))
   \<and> (sql_Open env (connStr username password (JoinHostPort host (itoa port)) dbName) = None
      \<and> db_Query env (connStr username password (JoinHostPort host (itoa port)) dbName) query
          = Inr sample_rows \<longrightarrow>
      fst (ExecuteQuery env host port username password dbName query)
        = Marshal env
            [[''id'' \<mapsto> VInt64 1, ''name'' \<mapsto> VString ''alice'', ''active'' \<mapsto> VBool True],
             [''id'' \<mapsto> VInt64 2, ''name'' \<mapsto> VString [], ''active'' \<mapsto> VBool False]])"
proof (intro conjI impI)
  show "map_sum id (\<lambda>h. unwrap (Some h)) (holder_Scan env (new_holder t) DNil)
     = Inr (case new_holder t of NullString s b \<Rightarrow> VString [] | NullBool x b \<Rightarrow> VBool False
                               | _ \<Rightarrow> VInt64 0)"
    by (simp add: new_holder_def)
next
  show "map_sum id (\<lambda>h. unwrap (Some h))
         (holder_Scan env (new_holder t)
            (case new_holder t of NullString s b \<Rightarrow> DString [] | NullBool x b \<Rightarrow> DBool False
                                | _ \<Rightarrow> DInt64 0))
     = map_sum id (\<lambda>h. unwrap (Some h)) (holder_Scan env (new_holder t) DNil)"
    by (simp add: new_holder_def convertAssign_string_def convertAssign_bool_def
          convertAssign_int64_def)
next
  assume a: "decode_row env cts (length cts) row = Inr md \<and> i < length cts \<and> row ! i = DNil
      \<and> (\<forall>j. i < j \<and> j < length cts \<longrightarrow> Name (cts ! j) \<noteq> Name (cts ! i))"
  then have "md (Name (cts ! i)) = Some (unwrap (Some (new_holder (DatabaseTypeName (cts ! i)))))"
    using null_cell_value [of env cts row md i] by blast
  then show "case new_holder (DatabaseTypeName (cts ! i)) of
         NullString s b \<Rightarrow> md (Name (cts ! i)) = Some (VString [])
       | NullBool x b \<Rightarrow> md (Name (cts ! i)) = Some (VBool False)
       | NullInt64 n b \<Rightarrow> md (Name (cts ! i)) = Some (VInt64 0)
       | _ \<Rightarrow> False"
    by (simp add: new_holder_def)
next
  assume "sql_Open env (connStr username password (JoinHostPort host (itoa port)) dbName) = None
      \<and> db_Query env (connStr username password (JoinHostPort host (itoa port)) dbName) query
          = Inr sample_rows"
  then show "fst (ExecuteQuery env host port username password dbName query)
        = Marshal env
            [[''id'' \<mapsto> VInt64 1, ''name'' \<mapsto> VString ''alice'', ''active'' \<mapsto> VBool True],
             [''id'' \<mapsto> VInt64 2, ''name'' \<mapsto> VString [], ''active'' \<mapsto> VBool False]]"
    by (simp add: fst_ExecuteQuery unmarshal_sample_rows)
qed

theorem null_decodes_to_zero_value_witness:
  "decode_row sample_env sample_columns (length sample_columns) [DInt64 2, DNil, DNil]
     = Inr [''id'' \<mapsto> VInt64 2, ''name'' \<mapsto> VString [], ''active'' \<mapsto> VBool False]
   \<and> [''id'' \<mapsto> VInt64 2, ''name'' \<mapsto> VString [], ''active'' \<mapsto> VBool False] ''name''
       = Some (VString [])
   \<and> [''id'' \<mapsto> VInt64 2, ''name'' \<mapsto> VString [], ''active'' \<mapsto> VBool False] ''active''
       = Some (VBool False)
   \<and> fst (ExecuteQuery sample_env ''10.0.0.7'' 5432 ''postgres'' ''secret'' ''app''
             ''select id, name, active from users'')
       = Inr ''[{...}]''"
  using null_decodes_to_zero_value
          [where env = sample_env and cts = sample_columns and row = "[DInt64 2, DNil, DNil]"
             and md = "[''id'' \<mapsto> VInt64 2, ''name'' \<mapsto> VString [], ''active'' \<mapsto> VBool False]"
             and i = 1 and t = "''TEXT''" and username = "''postgres''" and password = "''secret''"
             and host = "''10.0.0.7''" and port = 5432 and dbName = "''app''"
             and query = "''select id, name, active from users''"]
        null_decodes_to_zero_value
          [where env = sample_env and cts = sample_columns and row = "[DInt64 2, DNil, DNil]"
             and md = "[''id'' \<mapsto> VInt64 2, ''name'' \<mapsto> VString [], ''active'' \<mapsto> VBool False]"
             and i = 2 and t = "''BOOL''" and username = "''postgres''" and password = "''secret''"
             and host = "''10.0.0.7''" and port = 5432 and dbName = "''app''"
             and query = "''select id, name, active from users''"]
        decode_sample_row2 [of sample_env]
  by (simp add: sample_env_def sample_columns_def new_holder_def)

text \<open>
  C10.  The reason why the cursor stopped is never read: a result set whose
  iteration ended with a driver error is decoded as the same result set ending
  normally, and \<open>ExecuteQuery\<close> then returns the serialisation of the rows decoded
  up to that point, with no error.
\<close>

theorem iteration_error_is_dropped:
  "unmarshalSQLRows env (rows\<lparr>lasterr := Some e\<rparr>) = unmarshalSQLRows env (rows\<lparr>lasterr := None\<rparr>)
   \<and> (sql_Open env (connStr username password (JoinHostPort host (itoa port)) dbName) = None
      \<and> db_Query env (connStr username password (JoinHostPort host (itoa port)) dbName) query
          = Inr rows
      \<and> lasterr rows = Some e
      \<and> ColumnTypes rows = Inr cts
      \<and> map (decode_row env cts (length cts)) (pending rows) = map Inr mds
      \<and> Marshal env mds = Inr resp \<longrightarrow>
      ExecuteQuery env host port username password dbName query
        = (Inr resp,
           [Acquire SqlDB,
            Query (connStr username password (JoinHostPort host (itoa port)) dbName) query,
            Acquire SqlRows, Release SqlRows]))"
proof (intro conjI impI)
  show "unmarshalSQLRows env (rows\<lparr>lasterr := Some e\<rparr>) = unmarshalSQLRows env (rows\<lparr>lasterr := None\<rparr>)"
    by (simp add: unmarshalSQLRows_def Let_def split: sum.split)
next
  assume a: "sql_Open env (connStr username password (JoinHostPort host (itoa port)) dbName) = None
      \<and> db_Query env (connStr username password (JoinHostPort host (itoa port)) dbName) query
          = Inr rows
      \<and> lasterr rows = Some e
      \<and> ColumnTypes rows = Inr cts
      \<and> map (decode_row env cts (length cts)) (pending rows) = map Inr mds
      \<and> Marshal env mds = Inr resp"
  then have "unmarshalSQLRows env rows = (Inr resp, [Release SqlRows])"
    using unmarshalSQLRows_all_decoded [of rows cts env mds] by simp
  with a show "ExecuteQuery env host port username password dbName query
        = (Inr resp,
           [Acquire SqlDB,
            Query (connStr username password (JoinHostPort host (itoa port)) dbName) query,
            Acquire SqlRows, Release SqlRows])"
    by (simp add: fst_ExecuteQuery)
qed

theorem iteration_error_is_dropped_witness:
  "fst (ExecuteQuery
          (sample_env\<lparr>db_Query := \<lambda>cs q. Inr (sample_rows\<lparr>pending := [[DInt64 1, DString ''alice'', DBool True]],
                                                          lasterr := Some (Error ''unexpected EOF'')\<rparr>)\<rparr>)
          ''10.0.0.7'' 5432 ''postgres'' ''secret'' ''app'' ''select id, name, active from users'')
     = Inr ''[{...}]''"
  using iteration_error_is_dropped
          [where env = "sample_env\<lparr>db_Query := \<lambda>cs q. Inr (sample_rows\<lparr>pending := [[DInt64 1, DString ''alice'', DBool True]],
                                                          lasterr := Some (Error ''unexpected EOF'')\<rparr>)\<rparr>"
             and rows = "sample_rows\<lparr>pending := [[DInt64 1, DString ''alice'', DBool True]],
                            lasterr := Some (Error ''unexpected EOF'')\<rparr>"
             and e = "Error ''unexpected EOF''"
             and username = "''postgres''" and password = "''secret''" and host = "''10.0.0.7''"
             and port = 5432 and dbName = "''app''"
             and query = "''select id, name, active from users''"
             and cts = sample_columns
             and mds = "[[''id'' \<mapsto> VInt64 1, ''name'' \<mapsto> VString ''alice'', ''active'' \<mapsto> VBool True]]"
             and resp = "''[{...}]''"]
        decode_sample_row1 [of "sample_env\<lparr>db_Query := \<lambda>cs q. Inr (sample_rows\<lparr>pending := [[DInt64 1, DString ''alice'', DBool True]],
                                                          lasterr := Some (Error ''unexpected EOF'')\<rparr>)\<rparr>"]
  by (simp add: sample_env_def sample_rows_def)

end
